theory Spec2Isabelle
  imports Complex_Main
begin

section \<open>JSON values and the JavaScript operations the scripts apply to them\<close>

text \<open>
  The scripts are JavaScript run inside the image-processing host. What they read from
  disk is whatever \<open>JSON.parse\<close> returns, so the model keeps every kind of JSON value
  and writes out what the scripts' operators do on each kind. A property that is absent
  reads as \<open>undefined\<close>, modelled as \<open>None\<close>. Strings are byte strings; numbers are
  the finite ones.
\<close>

datatype json =
    JNull
  | JBool bool
  | JNum rat
  | JStr string
  | JArr "json list"
  | JObj "(string \<times> json) list"

text \<open>
  What a script can have thrown at it: \<open>Error\<close> is the scripts' own
  \<open>throw new Error(msg)\<close>; \<open>TypeError\<close> and \<open>SyntaxError\<close> come from the language
  (a property read on \<open>null\<close>, a call of something that is no function, a text that is
  no JSON); \<open>HostError\<close> is raised by a call into the host (engine, window, file).
\<close>

datatype jserror = Error string | TypeError | SyntaxError | HostError string

text \<open>Named constants of the engine's process prototypes that the scripts assign.\<close>

datatype proto_const =
    Average | AdditiveWithScaling | WinsorizedSigmaClip | Scale | DontCare
  | CalibrateAndCorrect | Median | NoiseEvaluation_MRS | PSFType_Moffat4

text \<open>The fields the stacking script sets on its \<open>new ImageIntegration\<close>.\<close>

record ImageIntegration =
  images :: "(bool \<times> json \<times> string \<times> string) list"
  combination :: proto_const
  normalization :: proto_const
  rejection :: proto_const
  rejectionNormalization :: proto_const
  weightMode :: proto_const
  evaluateSNR :: bool
  sigmaLow :: rat
  sigmaHigh :: rat
  generateIntegratedImage :: bool
  generateRejectionMaps :: bool
  generate64BitResult :: bool
  autoMemorySize :: bool
  noGUIMessages :: bool
  showImages :: bool

text \<open>The fields the calibration script sets on its \<open>new ImageCalibration\<close>.\<close>

record ImageCalibration =
  targetFrames :: "(bool \<times> json) list"
  masterBiasEnabled :: bool
  masterDarkEnabled :: bool
  masterFlatEnabled :: bool
  masterDarkPath :: "json option"
  masterFlatPath :: "json option"
  calibrationMode :: proto_const
  darkOptimization :: bool
  flatNormalization :: proto_const
  useDarksForBias :: bool
  useFlatsForBias :: bool
  enableCFA :: bool
  cosmeticCorrection :: bool
  cosmeticCorrectionHigh :: bool
  evaluateNoise :: bool
  noiseEvaluationAlgorithm :: proto_const
  evaluateSignal :: bool
  psfType :: proto_const
  outputDirectory :: "json option"
  overwriteExistingFiles :: bool
  outputPostfix :: "json option"

datatype process = Integration ImageIntegration | Calibration ImageCalibration

text \<open>
  The host: the parts of the JavaScript runtime and of the engine that the scripts call
  and that are not in the repository. Each is a parameter. A call that may raise
  returns the message of the error it raises (\<open>Some m\<close>, \<open>Inl m\<close>) or succeeds.
  \<^item> \<open>JSON_parse\<close>: \<open>None\<close> is a SyntaxError.
  \<^item> \<open>ToString\<close>, \<open>ToNumber\<close>: the coercions of \<open>+\<close> on a string and of \<open><\<close>
    against a number (\<open>None\<close> is NaN).
  \<^item> \<open>String_get\<close>: a property of a string value (\<open>length\<close>, an index).
  \<^item> \<open>executeGlobal\<close>: the engine run of a process.
  \<^item> \<open>activeWindow_isNull\<close>: \<open>ImageWindow.activeWindow.isNull\<close> when the script reads it.
  \<^item> \<open>saveAs\<close>: the window's save, by path.
  \<^item> \<open>File_createDirectory\<close>, \<open>File_createForWriting\<close>, \<open>File_outTextLn\<close> (the bytes
    it writes for a text), \<open>File_close\<close>.
\<close>

record host =
  JSON_parse :: "string \<Rightarrow> json option"
  ToString :: "json option \<Rightarrow> string"
  ToNumber :: "json \<Rightarrow> rat option"
  String_get :: "string \<Rightarrow> string \<Rightarrow> json option"
  executeGlobal :: "process \<Rightarrow> string option"
  activeWindow_isNull :: bool
  saveAs :: "string \<Rightarrow> string option"
  File_createDirectory :: "string \<Rightarrow> string option"
  File_createForWriting :: "string \<Rightarrow> string option"
  File_outTextLn :: "string \<Rightarrow> string + string"
  File_close :: "string option"

text \<open>
  What a run leaves behind: the console lines, the engine run, the read of the active
  window and the save request, in the order they happen.
\<close>

datatype event =
    Writeln string
  | Criticalln string
  | ExecuteGlobal process
  | ReadActiveWindow
  | SaveAs string bool bool bool bool

text \<open>The world a script runs in: the files and directories on disk, and the trace.\<close>

record world =
  files :: "string \<rightharpoonup> string"
  dirs :: "string set"
  trace :: "event list"

text \<open>How a script ends: it runs to its last line, an exception leaves \<open>main\<close>
  uncaught, or \<open>exit(n)\<close> is called.\<close>

datatype outcome = Completed | Thrown jserror | Exited int

definition boot :: "(string \<rightharpoonup> string) \<Rightarrow> string set \<Rightarrow> world" where
  "boot fs ds = \<lparr>files = fs, dirs = ds, trace = []\<rparr>"

definition emit :: "event \<Rightarrow> world \<Rightarrow> world" where
  "emit e w = w\<lparr>trace := trace w @ [e]\<rparr>"

subsection \<open>Operators on JSON values\<close>

text \<open>JavaScript truthiness, as \<open>!inputFiles\<close> uses it.\<close>

fun truthy :: "json \<Rightarrow> bool" where
  "truthy JNull = False"
| "truthy (JBool b) = b"
| "truthy (JNum r) = (r \<noteq> 0)"
| "truthy (JStr s) = (s \<noteq> [])"
| "truthy (JArr xs) = True"
| "truthy (JObj kvs) = True"

text \<open>
  A property read \<open>v.k\<close> or \<open>v[0]\<close>, for the keys the scripts use (\<open>length\<close>, \<open>0\<close> and
  the parameter names): on \<open>null\<close> it is a TypeError, on an object the own property,
  on an array its length or first element, on a string what the runtime gives, and
  \<open>undefined\<close> on a boolean or a number.
\<close>

fun getProperty :: "host \<Rightarrow> json \<Rightarrow> string \<Rightarrow> jserror + json option" where
  "getProperty h JNull k = Inl TypeError"
| "getProperty h (JObj kvs) k = Inr (map_of kvs k)"
| "getProperty h (JArr xs) k =
     Inr (if k = ''length'' then Some (JNum (of_nat (length xs)))
          else if k = ''0'' then (case xs of [] \<Rightarrow> None | x # _ \<Rightarrow> Some x)
          else None)"
| "getProperty h (JStr s) k = Inr (String_get h s k)"
| "getProperty h (JBool b) k = Inr None"
| "getProperty h (JNum r) k = Inr None"

text \<open>\<open>v < n\<close> for a numeric literal \<open>n\<close>: \<open>undefined\<close> and NaN compare false.\<close>

definition lessThanNum :: "host \<Rightarrow> json option \<Rightarrow> rat \<Rightarrow> bool" where
  "lessThanNum h v n =
     (case v of
        None \<Rightarrow> False
      | Some (JNum r) \<Rightarrow> r < n
      | Some u \<Rightarrow> (case ToNumber h u of None \<Rightarrow> False | Some r \<Rightarrow> r < n))"

text \<open>\<open>"text" + v\<close>: a string is appended as it is, anything else through ToString.\<close>

definition str :: "host \<Rightarrow> json option \<Rightarrow> string" where
  "str h v = (case v of Some (JStr s) \<Rightarrow> s | _ \<Rightarrow> ToString h v)"

text \<open>\<open>!inputFiles || inputFiles.length < n\<close>, the guard of both stage scripts.\<close>

definition tooFew :: "host \<Rightarrow> json \<Rightarrow> rat \<Rightarrow> bool" where
  "tooFew h inputFiles n =
     (\<not> truthy inputFiles \<or>
      (case getProperty h inputFiles ''length'' of
         Inl e \<Rightarrow> False
       | Inr len \<Rightarrow> lessThanNum h len n))"

text \<open>\<open>inputFiles.map(f)\<close>: only an array has \<open>map\<close>; on anything else the call is a
  TypeError.\<close>

definition mapFiles :: "(json \<Rightarrow> 'a) \<Rightarrow> json \<Rightarrow> jserror + 'a list" where
  "mapFiles f inputFiles =
     (case inputFiles of JArr xs \<Rightarrow> Inr (map f xs) | _ \<Rightarrow> Inl TypeError)"

subsection \<open>String operations of the output path\<close>

text \<open>
  \<open>toLowerCase\<close> on the bytes of a string: the letters A to Z are lowered. Bytes of
  characters beyond ASCII are left alone, which does not change whether the lowered
  string ends in \<open>.fits\<close>.
\<close>

definition lower_char :: "char \<Rightarrow> char" where
  "lower_char c =
     (case map_of (zip ''ABCDEFGHIJKLMNOPQRSTUVWXYZ'' ''abcdefghijklmnopqrstuvwxyz'') c of
        Some l \<Rightarrow> l
      | None \<Rightarrow> c)"

definition toLowerCase :: "string \<Rightarrow> string" where
  "toLowerCase s = map lower_char s"

definition endsWith :: "string \<Rightarrow> string \<Rightarrow> bool" where
  "endsWith s suffix =
     (length suffix \<le> length s \<and> drop (length s - length suffix) s = suffix)"

text \<open>\<open>s.slice(0, -n)\<close>: all but the last \<open>n\<close> characters, empty when there are fewer.\<close>

definition slice0 :: "string \<Rightarrow> nat \<Rightarrow> string" where
  "slice0 s n = take (length s - n) s"

text \<open>
  Lines 75 and 76 of the stacking script:
  \<^verbatim>\<open>let base = outputPath.toLowerCase().endsWith(".fits") ? outputPath.slice(0, -5) : outputPath;\<close>
  \<^verbatim>\<open>let finalPath = base + ".fits";\<close>
\<close>

definition finalPath :: "string \<Rightarrow> string" where
  "finalPath outputPath =
     (let base = (if endsWith (toLowerCase outputPath) ''.fits''
                  then slice0 outputPath 5 else outputPath)
      in base @ ''.fits'')"

section \<open>The scripts\<close>

subsection \<open>readJson\<close>

text \<open>
  \<open>readJson\<close> is the same function in every script: a path that is no file throws
  \<open>Error("Missing JSON file: " + path)\<close>, a text that does not parse throws the
  SyntaxError of \<open>JSON.parse\<close>, and otherwise the parsed value is returned.
\<close>

definition readJson :: "host \<Rightarrow> (string \<rightharpoonup> string) \<Rightarrow> string \<Rightarrow> jserror + json" where
  "readJson h fs path =
     (case fs path of
        None \<Rightarrow> Inl (Error (''Missing JSON file: '' @ path))
      | Some text \<Rightarrow>
          (case JSON_parse h text of None \<Rightarrow> Inl SyntaxError | Some v \<Rightarrow> Inr v))"

definition configDir :: string where
  "configDir = ''C:/Temp/PixStack/''"

definition inputFilePath :: string where
  "inputFilePath = configDir @ ''input_files.json''"

definition paramFilePath :: string where
  "paramFilePath = configDir @ ''params.json''"

text \<open>
  A call that may throw inside \<open>main\<close>, which has no \<open>try\<close> around it: the
  exception ends the run in the world as it is, a result goes to the rest of \<open>main\<close>.
\<close>

definition orThrow ::
  "jserror + 'a \<Rightarrow> world \<Rightarrow> ('a \<Rightarrow> outcome \<times> world) \<Rightarrow> outcome \<times> world" where
  "orThrow r w rest = (case r of Inl e \<Rightarrow> (Thrown e, w) | Inr x \<Rightarrow> rest x)"

text \<open>A call into the host that may raise, after which the world is \<open>w\<close>.\<close>

definition orRaise ::
  "string option \<Rightarrow> world \<Rightarrow> (outcome \<times> world) \<Rightarrow> outcome \<times> world" where
  "orRaise r w rest = (case r of Some m \<Rightarrow> (Thrown (HostError m), w) | None \<Rightarrow> rest)"

subsection \<open>The signal file block\<close>

text \<open>
  The launch helper (lines 6 to 23) and the stacking script (lines 92 to 109) hold the
  same \<open>try\<close> block, up to the file name. \<open>signal_try\<close> is the body of the \<open>try\<close>: it
  returns the message of the error that left it, if one did. \<open>write_signal\<close> adds the
  \<open>catch\<close>, which logs the message and goes on.
\<close>

definition scriptDir :: string where
  "scriptDir = ''C:/Temp/PixStack''"

definition signal_try :: "host \<Rightarrow> string \<Rightarrow> world \<Rightarrow> string option \<times> world" where
  "signal_try h name w0 =
     (let filePath = scriptDir @ name in
      case (if scriptDir \<in> dirs w0 then (None, w0)
            else (case File_createDirectory h scriptDir of
                    Some m \<Rightarrow> (Some m, w0)
                  | None \<Rightarrow> (None, w0\<lparr>dirs := insert scriptDir (dirs w0)\<rparr>))) of
        (Some m, w1) \<Rightarrow> (Some m, w1)
      | (None, w1) \<Rightarrow>
          (case File_createForWriting h filePath of
             Some m \<Rightarrow> (Some m, w1)
           | None \<Rightarrow>
               (let w2 = w1\<lparr>files := (files w1)(filePath \<mapsto> [])\<rparr> in
                case File_outTextLn h ''done'' of
                  Inl m \<Rightarrow> (Some m, w2)
                | Inr bytes \<Rightarrow>
                    (let w3 = w2\<lparr>files := (files w2)(filePath \<mapsto> bytes)\<rparr> in
                     case File_close h of
                       Some m \<Rightarrow> (Some m, w3)
                     | None \<Rightarrow>
                         (None,
                          emit (Writeln (''Signal file created successfully: '' @ filePath))
                            w3)))))"

definition write_signal :: "host \<Rightarrow> string \<Rightarrow> world \<Rightarrow> world" where
  "write_signal h name w =
     (case signal_try h name w of
        (Some m, w') \<Rightarrow> emit (Writeln (''Error creating signal file: '' @ m)) w'
      | (None, w') \<Rightarrow> w')"


subsection \<open>The stacking script\<close>

text \<open>The process object as lines 38 to 68 fill it, from the frame list.\<close>

definition integrationProcess :: "(bool \<times> json \<times> string \<times> string) list \<Rightarrow> ImageIntegration" where
  "integrationProcess frames =
     \<lparr>images = frames,
      combination = Average,
      normalization = AdditiveWithScaling,
      rejection = WinsorizedSigmaClip,
      rejectionNormalization = Scale,
      weightMode = DontCare,
      evaluateSNR = False,
      sigmaLow = 4,
      sigmaHigh = 3,
      generateIntegratedImage = True,
      generateRejectionMaps = False,
      generate64BitResult = True,
      autoMemorySize = True,
      noGUIMessages = True,
      showImages = True\<rparr>"

text \<open>The message of the error thrown at line 88; its dash is the three bytes of
  U+2014.\<close>

definition noWindowMessage :: string where
  "noWindowMessage =
     ''No active image window after ImageIntegration '' @ [CHR 0xE2, CHR 0x80, CHR 0x94]
       @ '' integration likely failed.''"

text \<open>
  Lines 17 to 89 of \<open>main\<close>, which the two stacking scripts of the repository share
  (the second one writes \<open>Console\<close> for \<open>console\<close>): read both files, check the count,
  build the process, run the engine, read the active window, and save it or throw.
  \<open>exit(1)\<close> ends the run with status 1.
\<close>

definition stack_steps :: "host \<Rightarrow> world \<Rightarrow> outcome \<times> world" where
  "stack_steps h w0 =
     (let w1 = emit (Writeln ''== Basic Stacking Script for PixInsight CLI =='') w0 in
      orThrow (readJson h (files w1) inputFilePath) w1 (\<lambda>inputFiles.
      orThrow (readJson h (files w1) paramFilePath) w1 (\<lambda>params.
      if tooFew h inputFiles 2
      then (Exited 1, emit (Criticalln ''Error: Need at least two input files.'') w1)
      else
      orThrow (getProperty h params ''output_path'') w1 (\<lambda>outputPath.
      orThrow (mapFiles (\<lambda>f. (True, f, [], [])) inputFiles) w1 (\<lambda>frames.
      let P = Integration (integrationProcess frames);
          w2 = emit (Writeln ''>> Running ImageIntegration...'') w1;
          w3 = emit (ExecuteGlobal P) w2
      in
      orRaise (executeGlobal h P) w3
        (let w4 = emit ReadActiveWindow w3 in
         if \<not> activeWindow_isNull h
         then
           (case outputPath of
              Some (JStr path) \<Rightarrow>
                (let w5 = emit (Writeln (''Saving integrated image to: '' @ finalPath path)) w4;
                     w6 = emit (SaveAs (finalPath path) False False False False) w5
                 in orRaise (saveAs h (finalPath path)) w6 (Completed, w6))
            | _ \<Rightarrow> (Thrown TypeError, w4))
         else (Thrown (Error noWindowMessage), w4)))))))"

text \<open>The first stacking script: those steps, then the signal file block (lines 91 to
  109).\<close>

definition main_stack :: "host \<Rightarrow> world \<Rightarrow> outcome \<times> world" where
  "main_stack h w =
     (case stack_steps h w of
        (Completed, w') \<Rightarrow> (Completed, write_signal h ''/basic_stack_complete.tmp'' w')
      | (r, w') \<Rightarrow> (r, w'))"

text \<open>The second stacking script: the same steps, then \<open>Console.writeln("Done.")\<close>.\<close>

definition main_stack2 :: "host \<Rightarrow> world \<Rightarrow> outcome \<times> world" where
  "main_stack2 h w =
     (case stack_steps h w of
        (Completed, w') \<Rightarrow> (Completed, emit (Writeln ''Done.'') w')
      | (r, w') \<Rightarrow> (r, w'))"

subsection \<open>The calibration script\<close>

text \<open>The process object as lines 45 to 89 fill it.\<close>

definition calibrationProcess ::
  "(bool \<times> json) list \<Rightarrow> json option \<Rightarrow> json option \<Rightarrow> json option \<Rightarrow> json option
    \<Rightarrow> ImageCalibration" where
  "calibrationProcess frames flat dark outputDir prefix =
     \<lparr>targetFrames = frames,
      masterBiasEnabled = False,
      masterDarkEnabled = True,
      masterFlatEnabled = True,
      masterDarkPath = dark,
      masterFlatPath = flat,
      calibrationMode = CalibrateAndCorrect,
      darkOptimization = False,
      flatNormalization = Median,
      useDarksForBias = False,
      useFlatsForBias = False,
      enableCFA = False,
      cosmeticCorrection = False,
      cosmeticCorrectionHigh = False,
      evaluateNoise = True,
      noiseEvaluationAlgorithm = NoiseEvaluation_MRS,
      evaluateSignal = True,
      psfType = PSFType_Moffat4,
      outputDirectory = outputDir,
      overwriteExistingFiles = True,
      outputPostfix = prefix\<rparr>"

text \<open>
  \<open>main\<close> of \<open>calibration_script.js\<close>: the input list is read and counted before
  \<open>params.json\<close> is read; the four parameters are read with no check that they are
  there, logged, and stored in the process; the engine runs once.
\<close>

definition main_calibration :: "host \<Rightarrow> world \<Rightarrow> outcome \<times> world" where
  "main_calibration h w0 =
     (let w1 = emit (Writeln ''== Calibration Script for PixInsight CLI =='') w0 in
      orThrow (readJson h (files w1) inputFilePath) w1 (\<lambda>inputFiles.
      if tooFew h inputFiles 1
      then (Exited 1,
            emit (Criticalln ''Error: Need at least one input file.'')
              (emit (Writeln ''Error: No input files found.'') w1))
      else
      orThrow (getProperty h inputFiles ''length'') w1 (\<lambda>len.
      let w2 = emit (Writeln (''Input files loaded: '' @ str h len)) w1 in
      orThrow (getProperty h inputFiles ''0'') w2 (\<lambda>first.
      let w3 = emit (Writeln (''First input file: '' @ str h first)) w2 in
      orThrow (readJson h (files w3) paramFilePath) w3 (\<lambda>params.
      orThrow (getProperty h params ''master_flat'') w3 (\<lambda>masterFlat.
      orThrow (getProperty h params ''master_dark'') w3 (\<lambda>masterDark.
      orThrow (getProperty h params ''output_dir'') w3 (\<lambda>outputDir.
      orThrow (getProperty h params ''prefix'') w3 (\<lambda>prefix.
      orThrow (mapFiles (\<lambda>f. (True, f)) inputFiles) w3 (\<lambda>frames.
      let w4 = emit (Writeln (str h (Some (JNum (of_nat (length frames))))
                        @ '' target frames loaded.'')) w3;
          w5 = emit (Writeln (''Master flat: '' @ str h masterFlat)) w4;
          w6 = emit (Writeln (''Master dark: '' @ str h masterDark)) w5;
          P = Calibration (calibrationProcess frames masterFlat masterDark outputDir prefix);
          w7 = emit (Writeln ''>> Running ImageCalibration...'') w6;
          w8 = emit (ExecuteGlobal P) w7
      in
      orRaise (executeGlobal h P) w8
        (let w9 = emit (Writeln ''>> ImageCalibration completed successfully.'') w8;
             w10 = emit (Writeln (''Integrated images saved to: '' @ str h outputDir)) w9
         in (Completed, w10))))))))))))"

subsection \<open>Reading a trace\<close>

fun engine_calls :: "event list \<Rightarrow> process list" where
  "engine_calls [] = []"
| "engine_calls (ExecuteGlobal p # t) = p # engine_calls t"
| "engine_calls (e # t) = engine_calls t"

fun save_calls :: "event list \<Rightarrow> (string \<times> bool \<times> bool \<times> bool \<times> bool) list" where
  "save_calls [] = []"
| "save_calls (SaveAs p a b c d # t) = (p, a, b, c, d) # save_calls t"
| "save_calls (e # t) = save_calls t"

fun criticals :: "event list \<Rightarrow> string list" where
  "criticals [] = []"
| "criticals (Criticalln s # t) = s # criticals t"
| "criticals (e # t) = criticals t"

text \<open>The trace without its console lines: what was asked of the engine, in order.\<close>

fun requests :: "event list \<Rightarrow> event list" where
  "requests [] = []"
| "requests (Writeln s # t) = requests t"
| "requests (Criticalln s # t) = requests t"
| "requests (e # t) = e # requests t"

text \<open>The frame list a process was given.\<close>

fun images_of :: "process \<Rightarrow> (bool \<times> json \<times> string \<times> string) list" where
  "images_of (Integration P) = images P"
| "images_of (Calibration P) = map (\<lambda>(enabled, f). (enabled, f, [], [])) (targetFrames P)"


text \<open>The process and the first console lines of a stacking run over the files \<open>xs\<close>.\<close>

definition stackProcess :: "json list \<Rightarrow> process" where
  "stackProcess xs = Integration (integrationProcess (map (\<lambda>f. (True, f, [], [])) xs))"

definition banner :: event where
  "banner = Writeln ''== Basic Stacking Script for PixInsight CLI ==''"

definition running :: event where
  "running = Writeln ''>> Running ImageIntegration...''"

definition calibrationBanner :: event where
  "calibrationBanner = Writeln ''== Calibration Script for PixInsight CLI ==''"

section \<open>Sample runs\<close>

text \<open>
  A host and some files to run the scripts on: the parser knows the few texts below
  and takes any other text for malformed, ToString prints \<open>undefined\<close> and the
  numbers 1 and 2 (all that the sample runs print), every host call succeeds, the engine
  leaves an active window, and \<open>outTextLn\<close> writes the text and a line feed.
\<close>

definition sample_parse :: "string \<Rightarrow> json option" where
  \<open>sample_parse text =
     (if text = ''["a.fits","b.fits"]'' then Some (JArr [JStr ''a.fits'', JStr ''b.fits''])
      else if text = ''["a.fits"]'' then Some (JArr [JStr ''a.fits''])
      else if text = ''[]'' then Some (JArr [])
      else if text = ''{"output_path":"C:/out/stack"}''
        then Some (JObj [(''output_path'', JStr ''C:/out/stack'')])
      else if text = ''{"master_flat":"C:/cal/flat.xisf","output_dir":"C:/out","prefix":"_c"}''
        then Some (JObj [(''master_flat'', JStr ''C:/cal/flat.xisf''),
                         (''output_dir'', JStr ''C:/out''), (''prefix'', JStr ''_c'')])
      else None)\<close>

definition sample_host :: host where
  "sample_host =
     \<lparr>JSON_parse = sample_parse,
      ToString = (\<lambda>v. if v = None then ''undefined''
                       else if v = Some (JNum 1) then ''1''
                       else if v = Some (JNum 2) then ''2'' else ''?''),
      ToNumber = (\<lambda>v. None),
      String_get = (\<lambda>s k. None),
      executeGlobal = (\<lambda>P. None),
      activeWindow_isNull = False,
      saveAs = (\<lambda>path. None),
      File_createDirectory = (\<lambda>dir. None),
      File_createForWriting = (\<lambda>path. None),
      File_outTextLn = (\<lambda>text. Inr (text @ [CHR 0x0A])),
      File_close = None\<rparr>"

text \<open>Hosts on which one call fails: the signal file cannot be created, its text
  cannot be written, the engine raises, or the engine leaves no active window.\<close>

definition readonly_host :: host where
  "readonly_host = sample_host\<lparr>File_createForWriting := (\<lambda>path. Some ''access denied'')\<rparr>"

definition full_disk_host :: host where
  "full_disk_host = sample_host\<lparr>File_outTextLn := (\<lambda>text. Inl ''disk full'')\<rparr>"

definition failing_engine_host :: host where
  "failing_engine_host = sample_host\<lparr>executeGlobal := (\<lambda>P. Some ''integration failed'')\<rparr>"

definition no_window_host :: host where
  "no_window_host = sample_host\<lparr>activeWindow_isNull := True\<rparr>"

definition stack_files :: "string \<rightharpoonup> string" where
  \<open>stack_files =
     [inputFilePath \<mapsto> ''["a.fits","b.fits"]'',
      paramFilePath \<mapsto> ''{"output_path":"C:/out/stack"}'']\<close>

definition one_frame_files :: "string \<rightharpoonup> string" where
  \<open>one_frame_files =
     [inputFilePath \<mapsto> ''["a.fits"]'',
      paramFilePath \<mapsto> ''{"output_path":"C:/out/stack"}'']\<close>

definition no_dark_files :: "string \<rightharpoonup> string" where
  \<open>no_dark_files =
     [inputFilePath \<mapsto> ''["a.fits"]'',
      paramFilePath \<mapsto> ''{"master_flat":"C:/cal/flat.xisf","output_dir":"C:/out","prefix":"_c"}'']\<close>

definition no_params_files :: "string \<rightharpoonup> string" where
  \<open>no_params_files = [inputFilePath \<mapsto> ''[]'']\<close>

definition malformed_files :: "string \<rightharpoonup> string" where
  \<open>malformed_files = [inputFilePath \<mapsto> ''["a.fits",'']\<close>

definition only_input_files :: "string \<rightharpoonup> string" where
  \<open>only_input_files = [inputFilePath \<mapsto> ''["a.fits"]'']\<close>

lemmas sample_defs =
  sample_host_def readonly_host_def full_disk_host_def failing_engine_host_def
  no_window_host_def sample_parse_def stack_files_def one_frame_files_def no_dark_files_def
  no_params_files_def malformed_files_def only_input_files_def inputFilePath_def paramFilePath_def configDir_def scriptDir_def

section \<open>The output path\<close>

lemma toLowerCase_fits: "toLowerCase ''.fits'' = ''.fits''"
  by (simp add: toLowerCase_def lower_char_def)

lemma toLowerCase_append: "toLowerCase (a @ b) = toLowerCase a @ toLowerCase b"
  by (simp add: toLowerCase_def)

lemma length_toLowerCase: "length (toLowerCase s) = length s"
  by (simp add: toLowerCase_def)

lemma finalPath_strip:
  assumes "toLowerCase s = ''.fits''"
  shows "finalPath (b @ s) = b @ ''.fits''"
proof -
  have len: "length s = 5"
    using assms length_toLowerCase [of s] by simp
  have "endsWith (toLowerCase (b @ s)) ''.fits''"
    using assms by (simp add: toLowerCase_append endsWith_def length_toLowerCase)
  then show ?thesis
    using len by (simp add: finalPath_def slice0_def)
qed

lemma finalPath_plain:
  assumes "\<not> endsWith (toLowerCase p) ''.fits''"
  shows "finalPath p = p @ ''.fits''"
  using assms by (simp add: finalPath_def)

lemmas path_defs = finalPath_def toLowerCase_def lower_char_def endsWith_def slice0_def

text \<open>
  C5. The output path rule is idempotent: for every base path \<open>p\<close>, applying lines 75
  and 76 to their own result gives that result again.
\<close>

theorem finalPath_idempotent: "finalPath (finalPath p) = finalPath p"
proof -
  obtain b where b: "finalPath p = b @ ''.fits''"
    by (simp add: finalPath_def Let_def)
  show ?thesis
    unfolding b using finalPath_strip [OF toLowerCase_fits, of b] .
qed

text \<open>
  C6. The suffix the script knows is \<open>.fits\<close>. A path that ends in it, in any mix of
  upper and lower case, loses that suffix once (a second one before it stays) and gets
  \<open>.fits\<close>; a path that does not end in it gets \<open>.fits\<close> appended; so
  \<open>/x/img.FITS\<close> and \<open>/x/img\<close> both give \<open>/x/img.fits\<close>.
\<close>

theorem finalPath_strips_once:
  "(toLowerCase s = ''.fits'' \<longrightarrow> finalPath (b @ s) = b @ ''.fits'')
   \<and> (toLowerCase s = ''.fits'' \<and> toLowerCase s' = ''.fits''
        \<longrightarrow> finalPath (b @ s' @ s) = b @ s' @ ''.fits'')
   \<and> (\<not> endsWith (toLowerCase p) ''.fits'' \<longrightarrow> finalPath p = p @ ''.fits'')
   \<and> finalPath ''/x/img.FITS'' = ''/x/img.fits''
   \<and> finalPath ''/x/img'' = ''/x/img.fits''"
proof (intro conjI impI)
  assume "toLowerCase s = ''.fits''"
  then show "finalPath (b @ s) = b @ ''.fits''"
    by (rule finalPath_strip)
next
  assume "toLowerCase s = ''.fits'' \<and> toLowerCase s' = ''.fits''"
  then show "finalPath (b @ s' @ s) = b @ s' @ ''.fits''"
    using finalPath_strip [of s "b @ s'"] by simp
next
  assume "\<not> endsWith (toLowerCase p) ''.fits''"
  then show "finalPath p = p @ ''.fits''"
    by (rule finalPath_plain)
next
  show "finalPath ''/x/img.FITS'' = ''/x/img.fits''"
    by (simp add: path_defs)
next
  show "finalPath ''/x/img'' = ''/x/img.fits''"
    by (simp add: path_defs)
qed

theorem finalPath_strips_once_witness:
  "toLowerCase ''.FiTs'' = ''.fits'' \<and> toLowerCase ''.fits'' = ''.fits''
   \<and> finalPath (''/x/img'' @ ''.FiTs'') = ''/x/img'' @ ''.fits''
   \<and> finalPath (''/x/img'' @ ''.fits'' @ ''.FiTs'') = ''/x/img'' @ ''.fits'' @ ''.fits''
   \<and> \<not> endsWith (toLowerCase ''/x/img.fit'') ''.fits''
   \<and> finalPath ''/x/img.fit'' = ''/x/img.fit'' @ ''.fits''"
proof -
  have h1: "toLowerCase ''.FiTs'' = ''.fits''"
    by (simp add: toLowerCase_def lower_char_def)
  have h2: "toLowerCase ''.fits'' = ''.fits''"
    by (simp add: toLowerCase_def lower_char_def)
  have h3: "\<not> endsWith (toLowerCase ''/x/img.fit'') ''.fits''"
    by (simp add: toLowerCase_def lower_char_def endsWith_def)
  show ?thesis
    using h1 h2 h3
      finalPath_strips_once [of "''.FiTs''" "''/x/img''" "''.fits''" "''/x/img.fit''"]
    by simp
qed

section \<open>Loading a configuration file\<close>

text \<open>
  C8. For every path that is not an existing file, \<open>readJson\<close> throws the error whose
  message is \<open>Missing JSON file: \<close> followed by that path, and returns no value.
\<close>

theorem readJson_missing:
  "fs path = None \<Longrightarrow> readJson h fs path = Inl (Error (''Missing JSON file: '' @ path))"
  by (simp add: readJson_def)

theorem readJson_missing_witness:
  "no_params_files ''/missing/input_files.json'' = None
   \<and> readJson sample_host no_params_files ''/missing/input_files.json''
       = Inl (Error ''Missing JSON file: /missing/input_files.json'')"
proof -
  have h: "no_params_files ''/missing/input_files.json'' = None"
    by (simp add: sample_defs)
  show ?thesis
    using h readJson_missing [of no_params_files "''/missing/input_files.json''" sample_host]
    by simp
qed

section \<open>Traces\<close>

lemma engine_calls_append: "engine_calls (a @ b) = engine_calls a @ engine_calls b"
proof (induction a)
  case Nil
  show ?case by simp
next
  case (Cons e a)
  then show ?case by (cases e) simp_all
qed

lemma save_calls_append: "save_calls (a @ b) = save_calls a @ save_calls b"
proof (induction a)
  case Nil
  show ?case by simp
next
  case (Cons e a)
  then show ?case by (cases e) simp_all
qed

lemma criticals_append: "criticals (a @ b) = criticals a @ criticals b"
proof (induction a)
  case Nil
  show ?case by simp
next
  case (Cons e a)
  then show ?case by (cases e) simp_all
qed

lemma requests_append: "requests (a @ b) = requests a @ requests b"
proof (induction a)
  case Nil
  show ?case by simp
next
  case (Cons e a)
  then show ?case by (cases e) simp_all
qed

lemmas trace_append = engine_calls_append save_calls_append criticals_append requests_append

section \<open>The signal file block\<close>

text \<open>Whatever happens inside the block, it adds one console line and nothing else to
  the trace.\<close>

lemma write_signal_trace: "\<exists>s. trace (write_signal h name w) = trace w @ [Writeln s]"
  by (simp add: write_signal_def signal_try_def emit_def Let_def
      split: option.splits sum.splits)

lemma write_signal_caught:
  assumes "signal_try h name w = (Some m, w1)"
  shows "write_signal h name w = emit (Writeln (''Error creating signal file: '' @ m)) w1"
  using assms by (simp add: write_signal_def)

lemma signal_try_written:
  assumes "scriptDir \<in> dirs w \<or> File_createDirectory h scriptDir = None"
    and "File_createForWriting h (scriptDir @ name) = None"
    and "File_outTextLn h ''done'' = Inr bytes"
    and "File_close h = None"
  shows "signal_try h name w =
    (None, emit (Writeln (''Signal file created successfully: '' @ scriptDir @ name))
       (w\<lparr>dirs := insert scriptDir (dirs w),
           files := (files w)(scriptDir @ name \<mapsto> bytes)\<rparr>))"
  using assms
  by (auto simp add: signal_try_def emit_def Let_def insert_absorb)

lemma signal_try_raises:
  assumes "signal_try h name w = (Some m, w1)"
  shows "trace w1 = trace w"
  using assms
  by (auto simp add: signal_try_def emit_def Let_def split: option.splits sum.splits if_splits)

section \<open>The stacking script\<close>

lemma of_nat_less_two: "(of_nat n < (2::rat)) = (n < 2)"
  by (metis of_nat_less_iff of_nat_numeral)

lemma of_nat_less_one: "(of_nat n < (1::rat)) = (n = 0)"
  using of_nat_less_iff [of n 1, where 'a = rat] by simp

lemma tooFew_array_2: "tooFew h (JArr xs) 2 = (length xs < 2)"
  by (simp add: tooFew_def lessThanNum_def of_nat_less_two)

lemma tooFew_array_1: "tooFew h (JArr xs) 1 = (xs = [])"
  by (simp add: tooFew_def lessThanNum_def of_nat_less_one)

lemmas step_defs = boot_def emit_def orThrow_def orRaise_def mapFiles_def
  stackProcess_def banner_def running_def calibrationBanner_def Let_def

lemma stack_steps_valid:
  assumes "readJson h fs inputFilePath = Inr (JArr xs)"
    and "2 \<le> length xs"
    and "readJson h fs paramFilePath = Inr p"
    and "getProperty h p ''output_path'' = Inr (Some (JStr out))"
  shows "stack_steps h (boot fs ds) =
    (case executeGlobal h (stackProcess xs) of
       Some m \<Rightarrow>
         (Thrown (HostError m),
          \<lparr>files = fs, dirs = ds, trace = [banner, running, ExecuteGlobal (stackProcess xs)]\<rparr>)
     | None \<Rightarrow>
         if activeWindow_isNull h
         then (Thrown (Error noWindowMessage),
               \<lparr>files = fs, dirs = ds,
                trace = [banner, running, ExecuteGlobal (stackProcess xs), ReadActiveWindow]\<rparr>)
         else ((case saveAs h (finalPath out) of
                  Some m \<Rightarrow> Thrown (HostError m) | None \<Rightarrow> Completed),
               \<lparr>files = fs, dirs = ds,
                trace = [banner, running, ExecuteGlobal (stackProcess xs), ReadActiveWindow,
                         Writeln (''Saving integrated image to: '' @ finalPath out),
                         SaveAs (finalPath out) False False False False]\<rparr>))"
  using assms
  by (simp add: stack_steps_def step_defs tooFew_array_2 split: option.splits)

lemma stack_steps_tooFew:
  assumes "readJson h fs inputFilePath = Inr v"
    and "tooFew h v 2"
    and "readJson h fs paramFilePath = Inr p"
  shows "stack_steps h (boot fs ds) =
    (Exited 1, \<lparr>files = fs, dirs = ds,
                trace = [banner, Criticalln ''Error: Need at least two input files.'']\<rparr>)"
  using assms by (simp add: stack_steps_def step_defs)

lemma stack_steps_no_input:
  assumes "readJson h fs inputFilePath = Inl e"
  shows "stack_steps h (boot fs ds) = (Thrown e, \<lparr>files = fs, dirs = ds, trace = [banner]\<rparr>)"
  using assms by (simp add: stack_steps_def step_defs)

lemma stack_steps_no_params:
  assumes "readJson h fs inputFilePath = Inr v"
    and "readJson h fs paramFilePath = Inl e"
  shows "stack_steps h (boot fs ds) = (Thrown e, \<lparr>files = fs, dirs = ds, trace = [banner]\<rparr>)"
  using assms by (simp add: stack_steps_def step_defs)

text \<open>What follows the steps in either script adds console lines only and never
  changes how the run ends.\<close>

lemma main_stack_outcome: "fst (main_stack h w) = fst (stack_steps h w)"
  by (cases "stack_steps h w"; cases "fst (stack_steps h w)") (simp_all add: main_stack_def)

lemma main_stack_failed:
  assumes "fst (stack_steps h w) \<noteq> Completed"
  shows "main_stack h w = stack_steps h w"
  using assms
  by (cases "stack_steps h w"; cases "fst (stack_steps h w)") (simp_all add: main_stack_def)

lemma main_stack_completed:
  assumes "stack_steps h w = (Completed, w1)"
  shows "main_stack h w = (Completed, write_signal h ''/basic_stack_complete.tmp'' w1)"
  using assms by (simp add: main_stack_def)

lemma main_stack_trace:
  "\<exists>t. trace (snd (main_stack h w)) = trace (snd (stack_steps h w)) @ t
       \<and> engine_calls t = [] \<and> save_calls t = [] \<and> criticals t = [] \<and> requests t = []"
proof (cases "fst (stack_steps h w) = Completed")
  case True
  then have "main_stack h w
      = (Completed, write_signal h ''/basic_stack_complete.tmp'' (snd (stack_steps h w)))"
    by (cases "stack_steps h w") (simp add: main_stack_def)
  moreover obtain s where
    "trace (write_signal h ''/basic_stack_complete.tmp'' (snd (stack_steps h w)))
      = trace (snd (stack_steps h w)) @ [Writeln s]"
    using write_signal_trace by blast
  ultimately show ?thesis by simp
next
  case False
  then show ?thesis by (simp add: main_stack_failed)
qed

lemma main_stack_requests:
  "engine_calls (trace (snd (main_stack h w))) = engine_calls (trace (snd (stack_steps h w)))"
  "save_calls (trace (snd (main_stack h w))) = save_calls (trace (snd (stack_steps h w)))"
  "criticals (trace (snd (main_stack h w))) = criticals (trace (snd (stack_steps h w)))"
  "requests (trace (snd (main_stack h w))) = requests (trace (snd (stack_steps h w)))"
  using main_stack_trace [of h w] by (auto simp add: trace_append)

text \<open>
  C1. For every configuration with at least two input files and a string
  \<open>output_path\<close>, the stacking script runs the engine exactly once. When that call
  returns, the script reads the active window next: if the window is not null it issues
  exactly one save request, and if it is null the run ends with the thrown error of
  line 88 and no save request is issued.
\<close>

theorem stack_engine_once_then_save:
  assumes "readJson h fs inputFilePath = Inr (JArr xs)"
    and "2 \<le> length xs"
    and "readJson h fs paramFilePath = Inr p"
    and "getProperty h p ''output_path'' = Inr (Some (JStr out))"
  shows "length (engine_calls (trace (snd (main_stack h (boot fs ds))))) = 1
    \<and> (executeGlobal h (stackProcess xs) = None \<and> \<not> activeWindow_isNull h \<longrightarrow>
         requests (trace (snd (main_stack h (boot fs ds))))
           = [ExecuteGlobal (stackProcess xs), ReadActiveWindow,
              SaveAs (finalPath out) False False False False]
         \<and> length (save_calls (trace (snd (main_stack h (boot fs ds))))) = 1)
    \<and> (executeGlobal h (stackProcess xs) = None \<and> activeWindow_isNull h \<longrightarrow>
         fst (main_stack h (boot fs ds)) = Thrown (Error noWindowMessage)
         \<and> requests (trace (snd (main_stack h (boot fs ds))))
             = [ExecuteGlobal (stackProcess xs), ReadActiveWindow]
         \<and> save_calls (trace (snd (main_stack h (boot fs ds)))) = [])"
proof -
  note steps = stack_steps_valid [OF assms, of ds]
  have calls: "length (engine_calls (trace (snd (main_stack h (boot fs ds))))) = 1"
    unfolding main_stack_requests steps
    by (simp add: banner_def running_def split: option.splits)
  have saved: "requests (trace (snd (main_stack h (boot fs ds))))
           = [ExecuteGlobal (stackProcess xs), ReadActiveWindow,
              SaveAs (finalPath out) False False False False]
         \<and> length (save_calls (trace (snd (main_stack h (boot fs ds))))) = 1"
    if "executeGlobal h (stackProcess xs) = None" and "\<not> activeWindow_isNull h"
    unfolding main_stack_requests steps using that
    by (simp add: banner_def running_def)
  have failed: "fst (main_stack h (boot fs ds)) = Thrown (Error noWindowMessage)
         \<and> requests (trace (snd (main_stack h (boot fs ds))))
             = [ExecuteGlobal (stackProcess xs), ReadActiveWindow]
         \<and> save_calls (trace (snd (main_stack h (boot fs ds)))) = []"
    if "executeGlobal h (stackProcess xs) = None" and "activeWindow_isNull h"
    unfolding main_stack_requests main_stack_outcome steps using that
    by (simp add: banner_def running_def)
  show ?thesis
    using calls saved failed by blast
qed

lemma sample_input: "readJson sample_host stack_files inputFilePath
    = Inr (JArr [JStr ''a.fits'', JStr ''b.fits''])"
  by (simp add: readJson_def sample_defs)

lemma sample_params: "readJson sample_host stack_files paramFilePath
    = Inr (JObj [(''output_path'', JStr ''C:/out/stack'')])"
  by (simp add: readJson_def sample_defs)

lemma sample_path: "finalPath ''C:/out/stack'' = ''C:/out/stack.fits''"
  by (simp add: path_defs)

theorem stack_engine_once_then_save_witness:
  "readJson sample_host stack_files inputFilePath = Inr (JArr [JStr ''a.fits'', JStr ''b.fits''])
   \<and> 2 \<le> length [JStr ''a.fits'', JStr ''b.fits'']
   \<and> readJson sample_host stack_files paramFilePath
       = Inr (JObj [(''output_path'', JStr ''C:/out/stack'')])
   \<and> getProperty sample_host (JObj [(''output_path'', JStr ''C:/out/stack'')]) ''output_path''
       = Inr (Some (JStr ''C:/out/stack''))
   \<and> executeGlobal sample_host (stackProcess [JStr ''a.fits'', JStr ''b.fits'']) = None
   \<and> \<not> activeWindow_isNull sample_host
   \<and> length (engine_calls (trace (snd (main_stack sample_host (boot stack_files {}))))) = 1
   \<and> length (save_calls (trace (snd (main_stack sample_host (boot stack_files {}))))) = 1
   \<and> executeGlobal (sample_host\<lparr>activeWindow_isNull := True\<rparr>)
        (stackProcess [JStr ''a.fits'', JStr ''b.fits'']) = None
   \<and> activeWindow_isNull (sample_host\<lparr>activeWindow_isNull := True\<rparr>)
   \<and> fst (main_stack (sample_host\<lparr>activeWindow_isNull := True\<rparr>) (boot stack_files {}))
       = Thrown (Error noWindowMessage)
   \<and> save_calls (trace (snd (main_stack (sample_host\<lparr>activeWindow_isNull := True\<rparr>)
        (boot stack_files {})))) = []"
proof -
  let ?xs = "[JStr ''a.fits'', JStr ''b.fits'']"
  let ?p = "JObj [(''output_path'', JStr ''C:/out/stack'')]"
  let ?h = "sample_host\<lparr>activeWindow_isNull := True\<rparr>"
  have a1: "readJson sample_host stack_files inputFilePath = Inr (JArr ?xs)"
    by (rule sample_input)
  have a2: "2 \<le> length ?xs" by simp
  have a3: "readJson sample_host stack_files paramFilePath = Inr ?p"
    by (rule sample_params)
  have a4: "getProperty sample_host ?p ''output_path'' = Inr (Some (JStr ''C:/out/stack''))"
    by simp
  have a5: "executeGlobal sample_host (stackProcess ?xs) = None"
    and a6: "\<not> activeWindow_isNull sample_host"
    by (simp_all add: sample_host_def)
  have b1: "readJson ?h stack_files inputFilePath = Inr (JArr ?xs)"
    by (simp add: readJson_def sample_defs)
  have b3: "readJson ?h stack_files paramFilePath = Inr ?p"
    by (simp add: readJson_def sample_defs)
  have b4: "getProperty ?h ?p ''output_path'' = Inr (Some (JStr ''C:/out/stack''))"
    by simp
  have b5: "executeGlobal ?h (stackProcess ?xs) = None"
    and b6: "activeWindow_isNull ?h"
    by (simp_all add: sample_host_def)
  show ?thesis
    using a1 a2 a3 a4 a5 a6 b5 b6
      stack_engine_once_then_save [OF a1 a2 a3 a4, of "{}"]
      stack_engine_once_then_save [OF b1 a2 b3 b4, of "{}"]
    by simp
qed

text \<open>
  C9. The stacking script hands the engine one frame descriptor per input file, in the
  order of \<open>input_files.json\<close>, each of the form \<open>[true, file, "", ""]\<close>. For the files
  \<open>a.fits\<close>, \<open>b.fits\<close> and the output path \<open>C:/out/stack\<close>, the engine runs once
  on those two descriptors in that order and, when it leaves an active window, the save
  request names \<open>C:/out/stack.fits\<close>.
\<close>

theorem stack_frames_in_order:
  assumes "readJson h fs inputFilePath = Inr (JArr xs)"
    and "2 \<le> length xs"
    and "readJson h fs paramFilePath = Inr p"
    and "getProperty h p ''output_path'' = Inr (Some (JStr out))"
  shows "(\<exists>P. engine_calls (trace (snd (main_stack h (boot fs ds)))) = [Integration P]
            \<and> images P = map (\<lambda>f. (True, f, [], [])) xs
            \<and> length (images P) = length xs)
    \<and> (xs = [JStr ''a.fits'', JStr ''b.fits''] \<and> out = ''C:/out/stack''
          \<and> executeGlobal h (stackProcess xs) = None \<and> \<not> activeWindow_isNull h \<longrightarrow>
        map images_of (engine_calls (trace (snd (main_stack h (boot fs ds)))))
          = [[(True, JStr ''a.fits'', [], []), (True, JStr ''b.fits'', [], [])]]
        \<and> save_calls (trace (snd (main_stack h (boot fs ds))))
          = [(''C:/out/stack.fits'', False, False, False, False)])"
proof -
  note steps = stack_steps_valid [OF assms, of ds]
  have calls: "engine_calls (trace (snd (main_stack h (boot fs ds)))) = [stackProcess xs]"
    unfolding main_stack_requests steps
    by (simp add: banner_def running_def split: option.splits)
  have general: "\<exists>P. engine_calls (trace (snd (main_stack h (boot fs ds)))) = [Integration P]
            \<and> images P = map (\<lambda>f. (True, f, [], [])) xs
            \<and> length (images P) = length xs"
    unfolding calls by (simp add: stackProcess_def integrationProcess_def)
  have scenario: "map images_of (engine_calls (trace (snd (main_stack h (boot fs ds)))))
          = [[(True, JStr ''a.fits'', [], []), (True, JStr ''b.fits'', [], [])]]
        \<and> save_calls (trace (snd (main_stack h (boot fs ds))))
          = [(''C:/out/stack.fits'', False, False, False, False)]"
    if "xs = [JStr ''a.fits'', JStr ''b.fits'']" and "out = ''C:/out/stack''"
      and "executeGlobal h (stackProcess xs) = None" and "\<not> activeWindow_isNull h"
  proof -
    have "save_calls (trace (snd (main_stack h (boot fs ds))))
          = [(finalPath out, False, False, False, False)]"
      unfolding main_stack_requests steps using that(3,4)
      by (simp add: banner_def running_def)
    then show ?thesis
      unfolding calls using that(1,2)
      by (simp add: sample_path stackProcess_def integrationProcess_def)
  qed
  show ?thesis
  proof (rule conjI)
    show "\<exists>P. engine_calls (trace (snd (main_stack h (boot fs ds)))) = [Integration P]
            \<and> images P = map (\<lambda>f. (True, f, [], [])) xs
            \<and> length (images P) = length xs"
      by (rule general)
  next
    show "xs = [JStr ''a.fits'', JStr ''b.fits''] \<and> out = ''C:/out/stack''
          \<and> executeGlobal h (stackProcess xs) = None \<and> \<not> activeWindow_isNull h \<longrightarrow>
        map images_of (engine_calls (trace (snd (main_stack h (boot fs ds)))))
          = [[(True, JStr ''a.fits'', [], []), (True, JStr ''b.fits'', [], [])]]
        \<and> save_calls (trace (snd (main_stack h (boot fs ds))))
          = [(''C:/out/stack.fits'', False, False, False, False)]"
    proof (rule impI, elim conjE)
      assume "xs = [JStr ''a.fits'', JStr ''b.fits'']" and "out = ''C:/out/stack''"
        and "executeGlobal h (stackProcess xs) = None" and "\<not> activeWindow_isNull h"
      then show "map images_of (engine_calls (trace (snd (main_stack h (boot fs ds)))))
          = [[(True, JStr ''a.fits'', [], []), (True, JStr ''b.fits'', [], [])]]
        \<and> save_calls (trace (snd (main_stack h (boot fs ds))))
          = [(''C:/out/stack.fits'', False, False, False, False)]"
        by (rule scenario)
    qed
  qed
qed

theorem stack_frames_in_order_witness:
  "readJson sample_host stack_files inputFilePath = Inr (JArr [JStr ''a.fits'', JStr ''b.fits''])
   \<and> 2 \<le> length [JStr ''a.fits'', JStr ''b.fits'']
   \<and> readJson sample_host stack_files paramFilePath
       = Inr (JObj [(''output_path'', JStr ''C:/out/stack'')])
   \<and> getProperty sample_host (JObj [(''output_path'', JStr ''C:/out/stack'')]) ''output_path''
       = Inr (Some (JStr ''C:/out/stack''))
   \<and> executeGlobal sample_host (stackProcess [JStr ''a.fits'', JStr ''b.fits'']) = None
   \<and> \<not> activeWindow_isNull sample_host
   \<and> map images_of (engine_calls (trace (snd (main_stack sample_host (boot stack_files {})))))
       = [[(True, JStr ''a.fits'', [], []), (True, JStr ''b.fits'', [], [])]]
   \<and> save_calls (trace (snd (main_stack sample_host (boot stack_files {}))))
       = [(''C:/out/stack.fits'', False, False, False, False)]"
proof -
  let ?xs = "[JStr ''a.fits'', JStr ''b.fits'']"
  let ?p = "JObj [(''output_path'', JStr ''C:/out/stack'')]"
  have a1: "readJson sample_host stack_files inputFilePath = Inr (JArr ?xs)"
    by (rule sample_input)
  have a2: "2 \<le> length ?xs" by simp
  have a3: "readJson sample_host stack_files paramFilePath = Inr ?p"
    by (rule sample_params)
  have a4: "getProperty sample_host ?p ''output_path'' = Inr (Some (JStr ''C:/out/stack''))"
    by simp
  have a5: "executeGlobal sample_host (stackProcess ?xs) = None"
    and a6: "\<not> activeWindow_isNull sample_host"
    by (simp_all add: sample_host_def)
  show ?thesis
    using a1 a2 a3 a4 a5 a6 stack_frames_in_order [OF a1 a2 a3 a4, of "{}"]
    by simp
qed

section \<open>The calibration script\<close>

lemma calibration_tooFew:
  assumes "readJson h fs inputFilePath = Inr v"
    and "tooFew h v 1"
  shows "main_calibration h (boot fs ds) =
    (Exited 1, \<lparr>files = fs, dirs = ds,
                trace = [calibrationBanner, Writeln ''Error: No input files found.'',
                         Criticalln ''Error: Need at least one input file.'']\<rparr>)"
  using assms by (simp add: main_calibration_def step_defs)



text \<open>
  C3. With fewer than two input files the stacking script, and with fewer than one the
  calibration script, logs the critical line that says so and calls \<open>exit(1)\<close>: the
  run ends with status 1 and the engine has not been run.
\<close>

theorem too_few_inputs_exit:
  "(readJson h fs inputFilePath = Inr (JArr xs) \<and> length xs < 2
      \<and> readJson h fs paramFilePath = Inr p \<longrightarrow>
      main_stack h (boot fs ds) =
        (Exited 1, \<lparr>files = fs, dirs = ds,
                    trace = [banner, Criticalln ''Error: Need at least two input files.'']\<rparr>)
      \<and> engine_calls (trace (snd (main_stack h (boot fs ds)))) = [])
   \<and> (readJson h fs inputFilePath = Inr (JArr xs) \<and> length xs < 1 \<longrightarrow>
      main_calibration h (boot fs ds) =
        (Exited 1, \<lparr>files = fs, dirs = ds,
                    trace = [calibrationBanner, Writeln ''Error: No input files found.'',
                             Criticalln ''Error: Need at least one input file.'']\<rparr>)
      \<and> engine_calls (trace (snd (main_calibration h (boot fs ds)))) = [])"
proof (rule conjI)
  show "readJson h fs inputFilePath = Inr (JArr xs) \<and> length xs < 2
      \<and> readJson h fs paramFilePath = Inr p \<longrightarrow>
      main_stack h (boot fs ds) =
        (Exited 1, \<lparr>files = fs, dirs = ds,
                    trace = [banner, Criticalln ''Error: Need at least two input files.'']\<rparr>)
      \<and> engine_calls (trace (snd (main_stack h (boot fs ds)))) = []"
  proof (rule impI, elim conjE)
    assume a: "readJson h fs inputFilePath = Inr (JArr xs)" "length xs < 2"
      "readJson h fs paramFilePath = Inr p"
    have few: "tooFew h (JArr xs) 2"
      using a(2) by (simp add: tooFew_array_2)
    have steps: "stack_steps h (boot fs ds) =
        (Exited 1, \<lparr>files = fs, dirs = ds,
                    trace = [banner, Criticalln ''Error: Need at least two input files.'']\<rparr>)"
      using stack_steps_tooFew [OF a(1) few a(3)] .
    then have "main_stack h (boot fs ds) = stack_steps h (boot fs ds)"
      by (simp add: main_stack_failed)
    then show "main_stack h (boot fs ds) =
        (Exited 1, \<lparr>files = fs, dirs = ds,
                    trace = [banner, Criticalln ''Error: Need at least two input files.'']\<rparr>)
      \<and> engine_calls (trace (snd (main_stack h (boot fs ds)))) = []"
      using steps by (simp add: banner_def)
  qed
next
  show "readJson h fs inputFilePath = Inr (JArr xs) \<and> length xs < 1 \<longrightarrow>
      main_calibration h (boot fs ds) =
        (Exited 1, \<lparr>files = fs, dirs = ds,
                    trace = [calibrationBanner, Writeln ''Error: No input files found.'',
                             Criticalln ''Error: Need at least one input file.'']\<rparr>)
      \<and> engine_calls (trace (snd (main_calibration h (boot fs ds)))) = []"
  proof (rule impI, elim conjE)
    assume a: "readJson h fs inputFilePath = Inr (JArr xs)" "length xs < 1"
    have few: "tooFew h (JArr xs) 1"
      using a(2) by (simp add: tooFew_array_1)
    show "main_calibration h (boot fs ds) =
        (Exited 1, \<lparr>files = fs, dirs = ds,
                    trace = [calibrationBanner, Writeln ''Error: No input files found.'',
                             Criticalln ''Error: Need at least one input file.'']\<rparr>)
      \<and> engine_calls (trace (snd (main_calibration h (boot fs ds)))) = []"
      using calibration_tooFew [OF a(1) few] by (simp add: calibrationBanner_def)
  qed
qed

lemma one_frame_input: "readJson sample_host one_frame_files inputFilePath
    = Inr (JArr [JStr ''a.fits''])"
  by (simp add: readJson_def sample_defs)

lemma one_frame_params: "readJson sample_host one_frame_files paramFilePath
    = Inr (JObj [(''output_path'', JStr ''C:/out/stack'')])"
  by (simp add: readJson_def sample_defs)

lemma no_params_input: "readJson sample_host no_params_files inputFilePath = Inr (JArr [])"
  by (simp add: readJson_def sample_defs)

lemma no_params_missing: "no_params_files paramFilePath = None"
  by (simp add: sample_defs)

theorem too_few_inputs_exit_witness:
  "readJson sample_host one_frame_files inputFilePath = Inr (JArr [JStr ''a.fits''])
   \<and> length [JStr ''a.fits''] < 2
   \<and> readJson sample_host one_frame_files paramFilePath
       = Inr (JObj [(''output_path'', JStr ''C:/out/stack'')])
   \<and> fst (main_stack sample_host (boot one_frame_files {})) = Exited 1
   \<and> criticals (trace (snd (main_stack sample_host (boot one_frame_files {}))))
       = [''Error: Need at least two input files.'']
   \<and> engine_calls (trace (snd (main_stack sample_host (boot one_frame_files {})))) = []
   \<and> readJson sample_host no_params_files inputFilePath = Inr (JArr [])
   \<and> length ([] :: json list) < 1
   \<and> fst (main_calibration sample_host (boot no_params_files {})) = Exited 1
   \<and> criticals (trace (snd (main_calibration sample_host (boot no_params_files {}))))
       = [''Error: Need at least one input file.'']
   \<and> engine_calls (trace (snd (main_calibration sample_host (boot no_params_files {})))) = []"
  using one_frame_input one_frame_params no_params_input
    too_few_inputs_exit [of sample_host one_frame_files "[JStr ''a.fits'']"
      "JObj [(''output_path'', JStr ''C:/out/stack'')]" "{}"]
    too_few_inputs_exit [of sample_host no_params_files "[]" JNull "{}"]
  by (simp add: banner_def calibrationBanner_def)

text \<open>
  C10. The stacking script reads both files before it counts the input files: when
  \<open>params.json\<close> is missing the engine is never run and, once \<open>input_files.json\<close>
  has been read, the run ends with the missing-file error of \<open>params.json\<close>, however
  few input files there are (when \<open>input_files.json\<close> is missing too, with the
  missing-file error of that file). The calibration script counts first: with an empty
  input list and \<open>params.json\<close> missing it reports too few inputs and exits with
  status 1.
\<close>

theorem params_read_before_count:
  assumes "fs paramFilePath = None"
  shows "engine_calls (trace (snd (main_stack h (boot fs ds)))) = []
    \<and> (readJson h fs inputFilePath = Inr v \<longrightarrow>
         fst (main_stack h (boot fs ds))
           = Thrown (Error (''Missing JSON file: '' @ paramFilePath)))
    \<and> (fs inputFilePath = None \<longrightarrow>
         fst (main_stack h (boot fs ds))
           = Thrown (Error (''Missing JSON file: '' @ inputFilePath)))
    \<and> (readJson h fs inputFilePath = Inr (JArr []) \<longrightarrow>
         fst (main_calibration h (boot fs ds)) = Exited 1
         \<and> criticals (trace (snd (main_calibration h (boot fs ds))))
             = [''Error: Need at least one input file.'']
         \<and> engine_calls (trace (snd (main_calibration h (boot fs ds)))) = [])"
proof -
  have params: "readJson h fs paramFilePath = Inl (Error (''Missing JSON file: '' @ paramFilePath))"
    using assms by (simp add: readJson_def)
  have steps: "\<exists>e. stack_steps h (boot fs ds)
      = (Thrown e, \<lparr>files = fs, dirs = ds, trace = [banner]\<rparr>)"
  proof (cases "readJson h fs inputFilePath")
    case (Inl e)
    then show ?thesis using stack_steps_no_input by blast
  next
    case (Inr v)
    then show ?thesis using stack_steps_no_params [OF Inr params] by blast
  qed
  have never: "engine_calls (trace (snd (main_stack h (boot fs ds)))) = []"
    unfolding main_stack_requests using steps by (auto simp add: banner_def)
  have loaded: "fst (main_stack h (boot fs ds))
           = Thrown (Error (''Missing JSON file: '' @ paramFilePath))"
    if "readJson h fs inputFilePath = Inr v"
    unfolding main_stack_outcome using stack_steps_no_params [OF that params] by simp
  have both: "fst (main_stack h (boot fs ds))
           = Thrown (Error (''Missing JSON file: '' @ inputFilePath))"
    if "fs inputFilePath = None"
  proof -
    have "readJson h fs inputFilePath = Inl (Error (''Missing JSON file: '' @ inputFilePath))"
      using that by (simp add: readJson_def)
    then show ?thesis
      unfolding main_stack_outcome using stack_steps_no_input by simp
  qed
  have calibration: "fst (main_calibration h (boot fs ds)) = Exited 1
         \<and> criticals (trace (snd (main_calibration h (boot fs ds))))
             = [''Error: Need at least one input file.'']
         \<and> engine_calls (trace (snd (main_calibration h (boot fs ds)))) = []"
    if "readJson h fs inputFilePath = Inr (JArr [])"
  proof -
    have "tooFew h (JArr []) 1" by (simp add: tooFew_array_1)
    then show ?thesis
      using calibration_tooFew [OF that] by (simp add: calibrationBanner_def)
  qed
  show ?thesis
    using never loaded both calibration by simp
qed

theorem params_read_before_count_witness:
  "no_params_files paramFilePath = None
   \<and> readJson sample_host no_params_files inputFilePath = Inr (JArr [])
   \<and> engine_calls (trace (snd (main_stack sample_host (boot no_params_files {})))) = []
   \<and> fst (main_stack sample_host (boot no_params_files {}))
       = Thrown (Error ''Missing JSON file: C:/Temp/PixStack/params.json'')
   \<and> fst (main_calibration sample_host (boot no_params_files {})) = Exited 1
   \<and> Map.empty paramFilePath = (None :: string option)
   \<and> Map.empty inputFilePath = (None :: string option)
   \<and> fst (main_stack sample_host (boot Map.empty {}))
       = Thrown (Error ''Missing JSON file: C:/Temp/PixStack/input_files.json'')"
  using no_params_missing no_params_input
    params_read_before_count
      [where fs = no_params_files and h = sample_host and v = "JArr []" and ds = "{}"]
    params_read_before_count
      [where fs = Map.empty and h = sample_host and v = JNull and ds = "{}"]
  by (simp add: paramFilePath_def inputFilePath_def configDir_def)

section \<open>The completion signal\<close>

lemma stack_files_read:
  assumes "JSON_parse h = sample_parse"
  shows "readJson h stack_files inputFilePath = Inr (JArr [JStr ''a.fits'', JStr ''b.fits''])"
    and "readJson h stack_files paramFilePath
      = Inr (JObj [(''output_path'', JStr ''C:/out/stack'')])"
  using assms
  by (simp_all add: readJson_def sample_parse_def stack_files_def inputFilePath_def
      paramFilePath_def configDir_def)

lemma stack_files_steps:
  assumes "JSON_parse h = sample_parse"
    and "executeGlobal h (stackProcess [JStr ''a.fits'', JStr ''b.fits'']) = None"
    and "\<not> activeWindow_isNull h"
    and "saveAs h ''C:/out/stack.fits'' = None"
  shows "stack_steps h (boot stack_files ds) =
    (Completed,
     \<lparr>files = stack_files, dirs = ds,
      trace = [banner, running, ExecuteGlobal (stackProcess [JStr ''a.fits'', JStr ''b.fits'']),
               ReadActiveWindow,
               Writeln ''Saving integrated image to: C:/out/stack.fits'',
               SaveAs ''C:/out/stack.fits'' False False False False]\<rparr>)"
proof -
  have "2 \<le> length [JStr ''a.fits'', JStr ''b.fits'']" by simp
  moreover have "getProperty h (JObj [(''output_path'', JStr ''C:/out/stack'')]) ''output_path''
      = Inr (Some (JStr ''C:/out/stack''))"
    by simp
  ultimately show ?thesis
    using stack_steps_valid [OF stack_files_read(1) [OF assms(1)] _
        stack_files_read(2) [OF assms(1)], of "''C:/out/stack''" ds] assms(2,3,4)
    by (simp add: sample_path)
qed

text \<open>
  C2, as the code has it. After a run that got through the save, the first stacking
  script tries to write \<open>C:/Temp/PixStack/basic_stack_complete.tmp\<close>. When no file
  call raises, the file then holds what \<open>outTextLn\<close> writes for the text \<open>done\<close>
  and a console line reports it. When a file call raises, the error is caught, a
  console line reports it, and the run completes all the same.
\<close>

theorem stack_signal_best_effort:
  assumes "stack_steps h w = (Completed, w1)"
  shows "fst (main_stack h w) = Completed
    \<and> ((scriptDir \<in> dirs w1 \<or> File_createDirectory h scriptDir = None)
        \<and> File_createForWriting h (scriptDir @ ''/basic_stack_complete.tmp'') = None
        \<and> File_outTextLn h ''done'' = Inr bytes
        \<and> File_close h = None \<longrightarrow>
        files (snd (main_stack h w)) ''C:/Temp/PixStack/basic_stack_complete.tmp'' = Some bytes
        \<and> trace (snd (main_stack h w)) = trace w1 @
            [Writeln ''Signal file created successfully: C:/Temp/PixStack/basic_stack_complete.tmp''])
    \<and> (signal_try h ''/basic_stack_complete.tmp'' w1 = (Some m, w2) \<longrightarrow>
        trace (snd (main_stack h w)) = trace w1 @ [Writeln (''Error creating signal file: '' @ m)])"
proof -
  note run = main_stack_completed [OF assms]
  have completes: "fst (main_stack h w) = Completed"
    by (simp add: run)
  have written: "files (snd (main_stack h w)) ''C:/Temp/PixStack/basic_stack_complete.tmp''
          = Some bytes
        \<and> trace (snd (main_stack h w)) = trace w1 @
            [Writeln ''Signal file created successfully: C:/Temp/PixStack/basic_stack_complete.tmp'']"
    if "scriptDir \<in> dirs w1 \<or> File_createDirectory h scriptDir = None"
      and "File_createForWriting h (scriptDir @ ''/basic_stack_complete.tmp'') = None"
      and "File_outTextLn h ''done'' = Inr bytes"
      and "File_close h = None"
    unfolding run write_signal_def signal_try_written [OF that]
    by (simp add: emit_def scriptDir_def)
  have caught: "trace (snd (main_stack h w))
      = trace w1 @ [Writeln (''Error creating signal file: '' @ m)]"
    if "signal_try h ''/basic_stack_complete.tmp'' w1 = (Some m, w2)"
    unfolding run write_signal_caught [OF that]
    using signal_try_raises [OF that] by (simp add: emit_def)
  show ?thesis
    using completes written caught by simp
qed

lemma readonly_signal:
  "signal_try readonly_host ''/basic_stack_complete.tmp'' \<lparr>files = fs, dirs = {scriptDir}, trace = t\<rparr>
    = (Some ''access denied'', \<lparr>files = fs, dirs = {scriptDir}, trace = t\<rparr>)"
  by (simp add: signal_try_def readonly_host_def sample_host_def)

theorem stack_signal_best_effort_witness:
  "fst (stack_steps sample_host (boot stack_files {})) = Completed
   \<and> File_createDirectory sample_host scriptDir = None
   \<and> File_createForWriting sample_host (scriptDir @ ''/basic_stack_complete.tmp'') = None
   \<and> File_outTextLn sample_host ''done'' = Inr (''done'' @ [CHR 0x0A])
   \<and> File_close sample_host = None
   \<and> fst (main_stack sample_host (boot stack_files {})) = Completed
   \<and> files (snd (main_stack sample_host (boot stack_files {})))
        ''C:/Temp/PixStack/basic_stack_complete.tmp'' = Some (''done'' @ [CHR 0x0A])
   \<and> fst (stack_steps readonly_host (boot stack_files {scriptDir})) = Completed
   \<and> fst (signal_try readonly_host ''/basic_stack_complete.tmp''
         (snd (stack_steps readonly_host (boot stack_files {scriptDir})))) = Some ''access denied''
   \<and> fst (main_stack readonly_host (boot stack_files {scriptDir})) = Completed
   \<and> last (trace (snd (main_stack readonly_host (boot stack_files {scriptDir}))))
       = Writeln ''Error creating signal file: access denied''"
proof -
  have s1: "stack_steps sample_host (boot stack_files {}) =
    (Completed,
     \<lparr>files = stack_files, dirs = {},
      trace = [banner, running, ExecuteGlobal (stackProcess [JStr ''a.fits'', JStr ''b.fits'']),
               ReadActiveWindow,
               Writeln ''Saving integrated image to: C:/out/stack.fits'',
               SaveAs ''C:/out/stack.fits'' False False False False]\<rparr>)"
    by (rule stack_files_steps) (simp_all add: sample_host_def)
  have s2: "stack_steps readonly_host (boot stack_files {scriptDir}) =
    (Completed,
     \<lparr>files = stack_files, dirs = {scriptDir},
      trace = [banner, running, ExecuteGlobal (stackProcess [JStr ''a.fits'', JStr ''b.fits'']),
               ReadActiveWindow,
               Writeln ''Saving integrated image to: C:/out/stack.fits'',
               SaveAs ''C:/out/stack.fits'' False False False False]\<rparr>)"
    by (rule stack_files_steps) (simp_all add: readonly_host_def sample_host_def)
  have ops: "File_createDirectory sample_host scriptDir = None"
    "File_createForWriting sample_host (scriptDir @ ''/basic_stack_complete.tmp'') = None"
    "File_outTextLn sample_host ''done'' = Inr (''done'' @ [CHR 0x0A])"
    "File_close sample_host = None"
    by (simp_all add: sample_host_def)
  show ?thesis
    using ops s1 s2
      stack_signal_best_effort [OF s1, where bytes = "''done'' @ [CHR 0x0A]"]
      stack_signal_best_effort [OF s2, where m = "''access denied''"
        and ?w2.0 = "snd (stack_steps readonly_host (boot stack_files {scriptDir}))"]
      readonly_signal [of stack_files]
    by simp
qed

text \<open>
  C2 as stated fails: on a host that refuses to create the signal file, the first
  stacking script runs the engine, saves the result and completes, and no signal file
  exists afterwards; and the second stacking script completes without writing any.
\<close>

theorem stack_signal_counterexample:
  "fst (main_stack readonly_host (boot stack_files {scriptDir})) = Completed
   \<and> save_calls (trace (snd (main_stack readonly_host (boot stack_files {scriptDir}))))
       = [(''C:/out/stack.fits'', False, False, False, False)]
   \<and> files (snd (main_stack readonly_host (boot stack_files {scriptDir})))
        ''C:/Temp/PixStack/basic_stack_complete.tmp'' = None
   \<and> fst (main_stack2 sample_host (boot stack_files {scriptDir})) = Completed
   \<and> save_calls (trace (snd (main_stack2 sample_host (boot stack_files {scriptDir}))))
       = [(''C:/out/stack.fits'', False, False, False, False)]
   \<and> files (snd (main_stack2 sample_host (boot stack_files {scriptDir}))) = stack_files"
proof -
  have s1: "stack_steps sample_host (boot stack_files {scriptDir}) =
    (Completed,
     \<lparr>files = stack_files, dirs = {scriptDir},
      trace = [banner, running, ExecuteGlobal (stackProcess [JStr ''a.fits'', JStr ''b.fits'']),
               ReadActiveWindow,
               Writeln ''Saving integrated image to: C:/out/stack.fits'',
               SaveAs ''C:/out/stack.fits'' False False False False]\<rparr>)"
    by (rule stack_files_steps) (simp_all add: sample_host_def)
  have s2: "stack_steps readonly_host (boot stack_files {scriptDir}) =
    (Completed,
     \<lparr>files = stack_files, dirs = {scriptDir},
      trace = [banner, running, ExecuteGlobal (stackProcess [JStr ''a.fits'', JStr ''b.fits'']),
               ReadActiveWindow,
               Writeln ''Saving integrated image to: C:/out/stack.fits'',
               SaveAs ''C:/out/stack.fits'' False False False False]\<rparr>)"
    by (rule stack_files_steps) (simp_all add: readonly_host_def sample_host_def)
  have none: "stack_files ''C:/Temp/PixStack/basic_stack_complete.tmp'' = None"
    by (simp add: stack_files_def inputFilePath_def paramFilePath_def configDir_def)
  show ?thesis
    using none
    by (simp add: main_stack_def main_stack2_def s1 s2 write_signal_def readonly_signal
        emit_def banner_def running_def)
qed

section \<open>Parameter keys\<close>





section \<open>How failures end a run\<close>





















end
